theory Spec2Isabelle
  imports Main
begin

section \<open>The host language: errors, strings, numbers\<close>

text \<open>
  The exceptions that the code of \<^verbatim>\<open>fastkml/styles.py\<close> can raise. The spec's
  ValueKind and ParseKind are both Python's \<^verbatim>\<open>ValueError\<close> (the second one raised by
  \<^verbatim>\<open>float\<close>), its TypeKind is \<^verbatim>\<open>TypeError\<close>. \<^verbatim>\<open>AttributeError\<close> is what
  \<^verbatim>\<open>key.text\<close> raises when \<^verbatim>\<open>key\<close> is \<^verbatim>\<open>None\<close>.
\<close>

datatype error = ValueError | TypeError | AttributeError

definition result_bind :: "error + 'a \<Rightarrow> ('a \<Rightarrow> error + 'b) \<Rightarrow> error + 'b" where
  "result_bind m f = (case m of Inl e \<Rightarrow> Inl e | Inr x \<Rightarrow> f x)"

text \<open>
  A Python float is modelled by its decimal notation: a sign, the integer part and the
  digits after the point (no trailing zero), which is what \<^verbatim>\<open>str\<close> prints and
  \<^verbatim>\<open>float\<close> reads. The model agrees with IEEE doubles on the values that
  \<open>pyfloat_ok\<close> admits: at most 15 significant digits, printed by Python in positional
  notation. Rounding, exponent notation, infinities and NaN are outside the model.
\<close>

datatype pyfloat = PyFloat (negative: bool) (whole: nat) (frac: "nat list")

datatype pynum = IntNum int | FloatNum pyfloat

definition pyfloat_ok :: "pyfloat \<Rightarrow> bool" where
  "pyfloat_ok f =
     (list_all (\<lambda>d. d < 10) (frac f) \<and>
      (frac f = [] \<or> last (frac f) \<noteq> 0) \<and>
      length (frac f) \<le> 15 \<and>
      whole f < 10 ^ (15 - length (frac f)) \<and>
      (whole f \<noteq> 0 \<or> frac f = [] \<or> take 4 (frac f) \<noteq> [0, 0, 0, 0]))"

definition digit_char :: "nat \<Rightarrow> char" where
  "digit_char d = ''0123456789'' ! d"

definition is_digit :: "char \<Rightarrow> bool" where
  "is_digit c = (c \<in> set ''0123456789'')"

text \<open>The value of a digit: its position in \<^verbatim>\<open>"0123456789"\<close>.\<close>

definition digit_val :: "char \<Rightarrow> nat" where
  "digit_val c = length (takeWhile (\<lambda>d. d \<noteq> c) ''0123456789'')"

text \<open>\<^verbatim>\<open>str(n)\<close> for an integer \<^verbatim>\<open>n >= 0\<close>.\<close>

fun str_nat :: "nat \<Rightarrow> string" where
  "str_nat n = (if n < 10 then [digit_char n] else str_nat (n div 10) @ [digit_char (n mod 10)])"

definition nat_of_digits :: "string \<Rightarrow> nat" where
  "nat_of_digits s = foldl (\<lambda>a c. 10 * a + digit_val c) 0 s"

definition strip_zeros :: "nat list \<Rightarrow> nat list" where
  "strip_zeros ds = rev (dropWhile (\<lambda>d. d = 0) (rev ds))"

text \<open>\<^verbatim>\<open>str(x)\<close> for an int or a float: \<^verbatim>\<open>str(1) = "1"\<close>, \<^verbatim>\<open>str(1.0) = "1.0"\<close>,
  \<^verbatim>\<open>str(-2.5) = "-2.5"\<close>.\<close>

definition str_float :: "pyfloat \<Rightarrow> string" where
  "str_float f =
     (if negative f then ''-'' else '''') @ str_nat (whole f) @ ''.'' @
     (if frac f = [] then ''0'' else map digit_char (frac f))"

fun py_str :: "pynum \<Rightarrow> string" where
  "py_str (IntNum i) = (if i < 0 then ''-'' @ str_nat (nat (- i)) else str_nat (nat i))"
| "py_str (FloatNum f) = str_float f"

text \<open>
  \<^verbatim>\<open>float(s)\<close> for a string: an optional sign, then digits with an optional point, at
  least one digit in all (\<^verbatim>\<open>"1"\<close>, \<^verbatim>\<open>"1.0"\<close>, \<^verbatim>\<open>"1."\<close>, \<^verbatim>\<open>".5"\<close>, \<^verbatim>\<open>"-0.25"\<close>); anything
  else raises \<^verbatim>\<open>ValueError\<close>. Python's surrounding whitespace, underscores, exponents,
  \<^verbatim>\<open>inf\<close> and \<^verbatim>\<open>nan\<close> are outside the model.
\<close>

definition float_unsigned :: "bool \<Rightarrow> string \<Rightarrow> error + pyfloat" where
  "float_unsigned neg s =
     (let ip = takeWhile is_digit s; rest = dropWhile is_digit s in
      case rest of
        [] \<Rightarrow> if ip = [] then Inl ValueError else Inr (PyFloat neg (nat_of_digits ip) [])
      | c # fp \<Rightarrow>
          if c = CHR ''.'' \<and> list_all is_digit fp \<and> (ip \<noteq> [] \<or> fp \<noteq> [])
          then Inr (PyFloat neg (nat_of_digits ip) (strip_zeros (map digit_val fp)))
          else Inl ValueError)"

definition float_of_str :: "string \<Rightarrow> error + pyfloat" where
  "float_of_str s =
     (case s of
        [] \<Rightarrow> Inl ValueError
      | c # r \<Rightarrow>
          if c = CHR ''-'' then float_unsigned True r
          else if c = CHR ''+'' then float_unsigned False r
          else float_unsigned False s)"

text \<open>\<^verbatim>\<open>float(element.text)\<close>: the text of an element is a string or \<^verbatim>\<open>None\<close>, and
  \<^verbatim>\<open>float(None)\<close> raises \<^verbatim>\<open>TypeError\<close>.\<close>

definition py_float :: "string option \<Rightarrow> error + pyfloat" where
  "py_float t = (case t of None \<Rightarrow> Inl TypeError | Some s \<Rightarrow> float_of_str s)"

text \<open>\<^verbatim>\<open>int(x)\<close> for a float: truncation towards zero.\<close>

definition py_int :: "pyfloat \<Rightarrow> int" where
  "py_int f = (if negative f then - int (whole f) else int (whole f))"

text \<open>Truthiness (\<^verbatim>\<open>if x:\<close>) of an optional string and of an optional number:
  \<^verbatim>\<open>None\<close>, \<^verbatim>\<open>""\<close>, \<^verbatim>\<open>0\<close>, \<^verbatim>\<open>0.0\<close> and \<^verbatim>\<open>-0.0\<close> are false.\<close>

definition truthy_str :: "string option \<Rightarrow> bool" where
  "truthy_str s = (case s of None \<Rightarrow> False | Some t \<Rightarrow> t \<noteq> [])"

fun truthy_num :: "pynum option \<Rightarrow> bool" where
  "truthy_num None = False"
| "truthy_num (Some (IntNum i)) = (i \<noteq> 0)"
| "truthy_num (Some (FloatNum f)) = (whole f \<noteq> 0 \<or> frac f \<noteq> [])"

section \<open>The element tree\<close>

text \<open>
  An element of the tree: its qualified tag, its attributes, its text (\<^verbatim>\<open>None\<close> when
  none was set) and its children in document order.
\<close>

datatype element =
  Element (tag: string) (attrib: "(string \<times> string) list") (text': "string option")
    (children: "element list")

text \<open>\<^verbatim>\<open>element.append(child)\<close>.\<close>

definition append_child :: "element \<Rightarrow> element \<Rightarrow> element" where
  "append_child e c = Element (tag e) (attrib e) (text' e) (children e @ [c])"

text \<open>\<^verbatim>\<open>child = etree.SubElement(element, tag); child.text = t\<close>.\<close>

definition SubElement :: "element \<Rightarrow> string \<Rightarrow> string option \<Rightarrow> element" where
  "SubElement e t txt = append_child e (Element t [] txt [])"

definition set_text :: "element \<Rightarrow> string option \<Rightarrow> element" where
  "set_text e txt = Element (tag e) (attrib e) txt (children e)"

text \<open>\<^verbatim>\<open>element.find(tag)\<close>: the first child with that tag, or \<^verbatim>\<open>None\<close>;
  \<^verbatim>\<open>element.findall(tag)\<close>: all of them, in document order.\<close>

definition etree_find :: "element \<Rightarrow> string \<Rightarrow> element option" where
  "etree_find e t = find (\<lambda>c. tag c = t) (children e)"


section \<open>The base object\<close>

text \<open>
  Modelled from the spec: the class \<^verbatim>\<open>_BaseObject\<close> of \<^verbatim>\<open>fastkml/base.py\<close>, which is not
  among the sources. The spec gives it an optional namespace, an optional id, "the root
  element construction (tag name + optional id attribute)" and "get/set-id": encoding
  builds the element \<^verbatim>\<open>{ns}{name}\<close> with the id as an attribute when there is one,
  decoding reads the id attribute when the element has one.
\<close>

definition BaseObject_etree_element :: "string \<Rightarrow> string \<Rightarrow> string option \<Rightarrow> element" where
  "BaseObject_etree_element nsp name oid =
     Element (nsp @ name) (case oid of None \<Rightarrow> [] | Some i \<Rightarrow> [(''id'', i)]) None []"

definition BaseObject_from_element :: "string option \<Rightarrow> element \<Rightarrow> string option" where
  "BaseObject_from_element oid e =
     (case map_of (attrib e) ''id'' of None \<Rightarrow> oid | Some i \<Rightarrow> Some i)"

record base_object =
  ns :: string
  id' :: "string option"

section \<open>StyleUrl\<close>

record style_url = base_object +
  url :: "string option"

definition StyleUrl_init :: "string \<Rightarrow> style_url" where
  "StyleUrl_init nsp = \<lparr>ns = nsp, id' = None, url = None\<rparr>"

definition StyleUrl_etree_element :: "style_url \<Rightarrow> error + element" where
  "StyleUrl_etree_element self =
     (if truthy_str (url self)
      then Inr (set_text (BaseObject_etree_element (ns self) ''styleUrl'' (id' self)) (url self))
      else Inl ValueError)"


section \<open>The colour styles\<close>

record color_style = base_object +
  color :: "string option"
  colorMode :: "string option"

text \<open>\<^verbatim>\<open>_ColorStyle.etree_element\<close>; the first argument is the \<^verbatim>\<open>__name__\<close> of the
  subclass.\<close>

definition ColorStyle_etree_element :: "string \<Rightarrow> 'a color_style_scheme \<Rightarrow> element" where
  "ColorStyle_etree_element name self =
     (let element = BaseObject_etree_element (ns self) name (id' self);
          element = (if truthy_str (color self)
                     then SubElement element (ns self @ ''color'') (color self) else element);
          element = (if truthy_str (colorMode self)
                     then SubElement element (ns self @ ''colorMode'') (colorMode self)
                     else element)
      in element)"

definition ColorStyle_from_element ::
  "'a color_style_scheme \<Rightarrow> element \<Rightarrow> 'a color_style_scheme" where
  "ColorStyle_from_element self element =
     (let self = self\<lparr>id' := BaseObject_from_element (id' self) element\<rparr>;
          self = (case etree_find element (ns self @ ''colorMode'') of
                    None \<Rightarrow> self | Some c \<Rightarrow> self\<lparr>colorMode := text' c\<rparr>);
          self = (case etree_find element (ns self @ ''color'') of
                    None \<Rightarrow> self | Some c \<Rightarrow> self\<lparr>color := text' c\<rparr>)
      in self)"

subsection \<open>IconStyle\<close>

record icon_style = color_style +
  scale :: "pynum option"
  heading :: "pynum option"
  icon_href :: "string option"

text \<open>\<^verbatim>\<open>IconStyle(ns)\<close>: the constructor's defaults.\<close>

definition IconStyle_init :: "string \<Rightarrow> icon_style" where
  "IconStyle_init nsp =
     \<lparr>ns = nsp, id' = None, color = None, colorMode = None,
      scale = Some (FloatNum (PyFloat False 1 [])), heading = None, icon_href = None\<rparr>"

definition IconStyle_etree_element :: "icon_style \<Rightarrow> element" where
  "IconStyle_etree_element self =
     (let element = ColorStyle_etree_element ''IconStyle'' self;
          element = (case scale self of
                       None \<Rightarrow> element
                     | Some x \<Rightarrow> SubElement element (ns self @ ''scale'') (Some (py_str x)));
          element = (if truthy_num (heading self)
                     then SubElement element (ns self @ ''heading'')
                            (Some (py_str (the (heading self))))
                     else element);
          element = (if truthy_str (icon_href self)
                     then append_child element
                            (Element (ns self @ ''Icon'') [] None
                               [Element (ns self @ ''href'') [] (icon_href self) []])
                     else element)
      in element)"

definition IconStyle_from_element :: "icon_style \<Rightarrow> element \<Rightarrow> error + icon_style" where
  "IconStyle_from_element self0 element =
     (let self = ColorStyle_from_element self0 element in
      result_bind
        (case etree_find element (ns self @ ''scale'') of
           None \<Rightarrow> Inr self
         | Some c \<Rightarrow> result_bind (py_float (text' c)) (\<lambda>f. Inr (self\<lparr>scale := Some (FloatNum f)\<rparr>)))
        (\<lambda>self.
      result_bind
        (case etree_find element (ns self @ ''heading'') of
           None \<Rightarrow> Inr self
         | Some c \<Rightarrow> result_bind (py_float (text' c)) (\<lambda>f. Inr (self\<lparr>heading := Some (FloatNum f)\<rparr>)))
        (\<lambda>self.
      Inr (case etree_find element (ns self @ ''Icon'') of
             None \<Rightarrow> self
           | Some icon \<Rightarrow>
               (case etree_find icon (ns self @ ''href'') of
                  None \<Rightarrow> self
                | Some href \<Rightarrow> self\<lparr>icon_href := text' href\<rparr>)))))"

subsection \<open>LineStyle\<close>

record line_style = color_style +
  width :: "pynum option"

text \<open>\<^verbatim>\<open>LineStyle(ns)\<close>: the default width is the integer \<^verbatim>\<open>1\<close>.\<close>

definition LineStyle_init :: "string \<Rightarrow> line_style" where
  "LineStyle_init nsp =
     \<lparr>ns = nsp, id' = None, color = None, colorMode = None, width = Some (IntNum 1)\<rparr>"

definition LineStyle_etree_element :: "line_style \<Rightarrow> element" where
  "LineStyle_etree_element self =
     (let element = ColorStyle_etree_element ''LineStyle'' self in
      case width self of
        None \<Rightarrow> element
      | Some x \<Rightarrow> SubElement element (ns self @ ''width'') (Some (py_str x)))"

definition LineStyle_from_element :: "line_style \<Rightarrow> element \<Rightarrow> error + line_style" where
  "LineStyle_from_element self0 element =
     (let self = ColorStyle_from_element self0 element in
      case etree_find element (ns self @ ''width'') of
        None \<Rightarrow> Inr self
      | Some c \<Rightarrow> result_bind (py_float (text' c)) (\<lambda>f. Inr (self\<lparr>width := Some (FloatNum f)\<rparr>)))"

subsection \<open>PolyStyle\<close>

record poly_style = color_style +
  fill :: "pynum option"
  outline :: "pynum option"

definition PolyStyle_init :: "string \<Rightarrow> poly_style" where
  "PolyStyle_init nsp =
     \<lparr>ns = nsp, id' = None, color = None, colorMode = None,
      fill = Some (IntNum 1), outline = Some (IntNum 1)\<rparr>"

definition PolyStyle_etree_element :: "poly_style \<Rightarrow> element" where
  "PolyStyle_etree_element self =
     (let element = ColorStyle_etree_element ''PolyStyle'' self;
          element = (case fill self of
                       None \<Rightarrow> element
                     | Some x \<Rightarrow> SubElement element (ns self @ ''fill'') (Some (py_str x)));
          element = (case outline self of
                       None \<Rightarrow> element
                     | Some x \<Rightarrow> SubElement element (ns self @ ''outline'') (Some (py_str x)))
      in element)"

definition PolyStyle_from_element :: "poly_style \<Rightarrow> element \<Rightarrow> error + poly_style" where
  "PolyStyle_from_element self0 element =
     (let self = ColorStyle_from_element self0 element in
      result_bind
        (case etree_find element (ns self @ ''fill'') of
           None \<Rightarrow> Inr self
         | Some c \<Rightarrow>
             result_bind (py_float (text' c)) (\<lambda>f. Inr (self\<lparr>fill := Some (IntNum (py_int f))\<rparr>)))
        (\<lambda>self.
      case etree_find element (ns self @ ''outline'') of
        None \<Rightarrow> Inr self
      | Some c \<Rightarrow>
          result_bind (py_float (text' c)) (\<lambda>f. Inr (self\<lparr>outline := Some (IntNum (py_int f))\<rparr>))))"

subsection \<open>LabelStyle\<close>

record label_style = color_style +
  scale :: "pynum option"

definition LabelStyle_init :: "string \<Rightarrow> label_style" where
  "LabelStyle_init nsp =
     \<lparr>ns = nsp, id' = None, color = None, colorMode = None,
      label_style.scale = Some (FloatNum (PyFloat False 1 []))\<rparr>"

definition LabelStyle_etree_element :: "label_style \<Rightarrow> element" where
  "LabelStyle_etree_element self =
     (let element = ColorStyle_etree_element ''LabelStyle'' self in
      case label_style.scale self of
        None \<Rightarrow> element
      | Some x \<Rightarrow> SubElement element (ns self @ ''scale'') (Some (py_str x)))"

definition LabelStyle_from_element :: "label_style \<Rightarrow> element \<Rightarrow> error + label_style" where
  "LabelStyle_from_element self0 element =
     (let self = ColorStyle_from_element self0 element in
      case etree_find element (ns self @ ''scale'') of
        None \<Rightarrow> Inr self
      | Some c \<Rightarrow>
          result_bind (py_float (text' c))
            (\<lambda>f. Inr (self\<lparr>label_style.scale := Some (FloatNum f)\<rparr>)))"

section \<open>BalloonStyle\<close>

record balloon_style = base_object +
  bgColor :: "string option"
  textColor :: "string option"
  balloon_text :: "string option"
  displayMode :: "string option"

definition BalloonStyle_init :: "string \<Rightarrow> balloon_style" where
  "BalloonStyle_init nsp =
     \<lparr>ns = nsp, id' = None, bgColor = None, textColor = None, balloon_text = None,
      displayMode = None\<rparr>"

definition BalloonStyle_from_element :: "balloon_style \<Rightarrow> element \<Rightarrow> balloon_style" where
  "BalloonStyle_from_element self element =
     (let self = self\<lparr>id' := BaseObject_from_element (id' self) element\<rparr>;
          self = (case etree_find element (ns self @ ''bgColor'') of
                    Some c \<Rightarrow> self\<lparr>bgColor := text' c\<rparr>
                  | None \<Rightarrow>
                      (case etree_find element (ns self @ ''color'') of
                         Some c \<Rightarrow> self\<lparr>bgColor := text' c\<rparr>
                       | None \<Rightarrow> self));
          self = (case etree_find element (ns self @ ''textColor'') of
                    None \<Rightarrow> self | Some c \<Rightarrow> self\<lparr>textColor := text' c\<rparr>);
          self = (case etree_find element (ns self @ ''text'') of
                    None \<Rightarrow> self | Some c \<Rightarrow> self\<lparr>balloon_text := text' c\<rparr>);
          self = (case etree_find element (ns self @ ''displayMode'') of
                    None \<Rightarrow> self | Some c \<Rightarrow> self\<lparr>displayMode := text' c\<rparr>)
      in self)"

definition BalloonStyle_etree_element :: "balloon_style \<Rightarrow> element" where
  "BalloonStyle_etree_element self =
     (let element = BaseObject_etree_element (ns self) ''BalloonStyle'' (id' self);
          element = (case bgColor self of
                       None \<Rightarrow> element
                     | Some t \<Rightarrow> SubElement element (ns self @ ''bgColor'') (Some t));
          element = (case textColor self of
                       None \<Rightarrow> element
                     | Some t \<Rightarrow> SubElement element (ns self @ ''textColor'') (Some t));
          element = (case balloon_text self of
                       None \<Rightarrow> element
                     | Some t \<Rightarrow> SubElement element (ns self @ ''text'') (Some t));
          element = (case displayMode self of
                       None \<Rightarrow> element
                     | Some t \<Rightarrow> SubElement element (ns self @ ''displayMode'') (Some t))
      in element)"

section \<open>Python objects\<close>

text \<open>
  The values a Python variable of this module can hold: \<^verbatim>\<open>None\<close>, a string, a number, or
  an instance of one of the eight concrete classes. The abstract classes
  \<^verbatim>\<open>_ColorStyle\<close> and \<^verbatim>\<open>_StyleSelector\<close> are not instantiated ("abstract element; do not
  create"). A \<^verbatim>\<open>Style\<close> holds a list of any objects in \<^verbatim>\<open>_styles\<close>, a \<^verbatim>\<open>StyleMap\<close> any
  object in each of its two slots.
\<close>

datatype pyobj =
    PyNone
  | PyStr string
  | PyNum pynum
  | IconStyleObj icon_style
  | LineStyleObj line_style
  | PolyStyleObj poly_style
  | LabelStyleObj label_style
  | BalloonStyleObj balloon_style
  | StyleUrlObj style_url
  | StyleObj style
  | StyleMapObj style_map
and style = Style (style_ns: string) (style_id: "string option") (private_styles: "pyobj list")
and style_map =
  StyleMap (map_ns: string) (map_id: "string option") (normal: pyobj) (highlight: pyobj)

text \<open>\<^verbatim>\<open>isinstance(style, (_ColorStyle, BalloonStyle))\<close>.\<close>

fun isinstance_ColorStyle_BalloonStyle :: "pyobj \<Rightarrow> bool" where
  "isinstance_ColorStyle_BalloonStyle (IconStyleObj _) = True"
| "isinstance_ColorStyle_BalloonStyle (LineStyleObj _) = True"
| "isinstance_ColorStyle_BalloonStyle (PolyStyleObj _) = True"
| "isinstance_ColorStyle_BalloonStyle (LabelStyleObj _) = True"
| "isinstance_ColorStyle_BalloonStyle (BalloonStyleObj _) = True"
| "isinstance_ColorStyle_BalloonStyle _ = False"

text \<open>\<^verbatim>\<open>isinstance(x, (Style, StyleUrl))\<close>.\<close>

fun isinstance_Style_StyleUrl :: "pyobj \<Rightarrow> bool" where
  "isinstance_Style_StyleUrl (StyleObj _) = True"
| "isinstance_Style_StyleUrl (StyleUrlObj _) = True"
| "isinstance_Style_StyleUrl _ = False"

text \<open>Truthiness of an object: the classes of this module define neither \<^verbatim>\<open>__bool__\<close>
  nor \<^verbatim>\<open>__len__\<close>, so their instances are true.\<close>

fun py_truthy :: "pyobj \<Rightarrow> bool" where
  "py_truthy PyNone = False"
| "py_truthy (PyStr s) = (s \<noteq> [])"
| "py_truthy (PyNum n) = truthy_num (Some n)"
| "py_truthy _ = True"

section \<open>Style and StyleMap\<close>

definition Style_init :: "string \<Rightarrow> style" where
  "Style_init nsp = Style nsp None []"


text \<open>
  \<^verbatim>\<open>Style.append_style\<close>: the result is the exception raised, if any, and the bundle
  after the call.
\<close>

definition Style_append_style :: "style \<Rightarrow> pyobj \<Rightarrow> error option \<times> style" where
  "Style_append_style self style =
     (if isinstance_ColorStyle_BalloonStyle style
      then (None, Style (style_ns self) (style_id self) (private_styles self @ [style]))
      else (Some TypeError, self))"

definition raise_or_return :: "error option \<times> 'a \<Rightarrow> error + 'a" where
  "raise_or_return r = (case fst r of Some e \<Rightarrow> Inl e | None \<Rightarrow> Inr (snd r))"

text \<open>
  \<^verbatim>\<open>x.etree_element()\<close>, dispatched on the class of \<^verbatim>\<open>x\<close>; an object without the method
  raises \<^verbatim>\<open>AttributeError\<close>. \<open>Style_etree_loop\<close> is the loop of
  \<^verbatim>\<open>Style.etree_element\<close> over the generator \<^verbatim>\<open>Style.styles\<close>, which raises
  \<^verbatim>\<open>TypeError\<close> at the first member that is no colour style and no balloon style.
\<close>

function (sequential) etree_element :: "pyobj \<Rightarrow> error + element"
  and Style_etree_loop :: "element \<Rightarrow> pyobj list \<Rightarrow> error + element"
where
  "etree_element (IconStyleObj s) = Inr (IconStyle_etree_element s)"
| "etree_element (LineStyleObj s) = Inr (LineStyle_etree_element s)"
| "etree_element (PolyStyleObj s) = Inr (PolyStyle_etree_element s)"
| "etree_element (LabelStyleObj s) = Inr (LabelStyle_etree_element s)"
| "etree_element (BalloonStyleObj s) = Inr (BalloonStyle_etree_element s)"
| "etree_element (StyleUrlObj s) = StyleUrl_etree_element s"
| "etree_element (StyleObj (Style nsp oid ms)) =
     Style_etree_loop (BaseObject_etree_element nsp ''Style'' oid) ms"
| "etree_element (StyleMapObj (StyleMap nsp oid n h)) =
     (let element = BaseObject_etree_element nsp ''StyleMap'' oid in
      result_bind
        (if py_truthy n \<and> isinstance_Style_StyleUrl n
         then result_bind (etree_element n)
                (\<lambda>c. Inr (append_child element
                   (Element (nsp @ ''Pair'') [] None
                      [Element (nsp @ ''key'') [] (Some ''normal'') [], c])))
         else Inr element)
        (\<lambda>element.
           if py_truthy h \<and> isinstance_Style_StyleUrl h
           then result_bind (etree_element h)
                  (\<lambda>c. Inr (append_child element
                     (Element (nsp @ ''Pair'') [] None
                        [Element (nsp @ ''key'') [] (Some ''highlight'') [], c])))
           else Inr element))"
| "etree_element _ = Inl AttributeError"
| "Style_etree_loop element [] = Inr element"
| "Style_etree_loop element (style # rest) =
     (if isinstance_ColorStyle_BalloonStyle style
      then result_bind (etree_element style) (\<lambda>c. Style_etree_loop (append_child element c) rest)
      else Inl TypeError)"
  by pat_completeness auto
termination
  by (relation "measure (\<lambda>x. case x of Inl obj \<Rightarrow> size obj | Inr (e, ms) \<Rightarrow> size_list size ms)") auto

definition Style_etree_element :: "style \<Rightarrow> error + element" where
  "Style_etree_element self = etree_element (StyleObj self)"

definition StyleMap_etree_element :: "style_map \<Rightarrow> error + element" where
  "StyleMap_etree_element self = etree_element (StyleMapObj self)"

definition Style_from_element :: "style \<Rightarrow> element \<Rightarrow> error + style" where
  "Style_from_element self0 element =
     (let nsp = style_ns self0;
          self = Style nsp (BaseObject_from_element (style_id self0) element)
                   (private_styles self0) in
      result_bind
        (case etree_find element (nsp @ ''IconStyle'') of
           None \<Rightarrow> Inr self
         | Some style \<Rightarrow>
             result_bind (IconStyle_from_element (IconStyle_init nsp) style)
               (\<lambda>thestyle. raise_or_return (Style_append_style self (IconStyleObj thestyle))))
        (\<lambda>self.
      result_bind
        (case etree_find element (nsp @ ''LineStyle'') of
           None \<Rightarrow> Inr self
         | Some style \<Rightarrow>
             result_bind (LineStyle_from_element (LineStyle_init nsp) style)
               (\<lambda>thestyle. raise_or_return (Style_append_style self (LineStyleObj thestyle))))
        (\<lambda>self.
      result_bind
        (case etree_find element (nsp @ ''PolyStyle'') of
           None \<Rightarrow> Inr self
         | Some style \<Rightarrow>
             result_bind (PolyStyle_from_element (PolyStyle_init nsp) style)
               (\<lambda>thestyle. raise_or_return (Style_append_style self (PolyStyleObj thestyle))))
        (\<lambda>self.
      result_bind
        (case etree_find element (nsp @ ''LabelStyle'') of
           None \<Rightarrow> Inr self
         | Some style \<Rightarrow>
             result_bind (LabelStyle_from_element (LabelStyle_init nsp) style)
               (\<lambda>thestyle. raise_or_return (Style_append_style self (LabelStyleObj thestyle))))
        (\<lambda>self.
      case etree_find element (nsp @ ''BalloonStyle'') of
        None \<Rightarrow> Inr self
      | Some style \<Rightarrow>
          raise_or_return
            (Style_append_style self
               (BalloonStyleObj (BalloonStyle_from_element (BalloonStyle_init nsp) style))))))))"




section \<open>Notions of the specification\<close>

text \<open>The runtime kind of an object (its class).\<close>

datatype kind =
    NoneKind | StrKind | NumKind
  | IconStyleKind | LineStyleKind | PolyStyleKind | LabelStyleKind | BalloonStyleKind
  | StyleUrlKind | StyleKind | StyleMapKind

fun kind_of :: "pyobj \<Rightarrow> kind" where
  "kind_of PyNone = NoneKind"
| "kind_of (PyStr _) = StrKind"
| "kind_of (PyNum _) = NumKind"
| "kind_of (IconStyleObj _) = IconStyleKind"
| "kind_of (LineStyleObj _) = LineStyleKind"
| "kind_of (PolyStyleObj _) = PolyStyleKind"
| "kind_of (LabelStyleObj _) = LabelStyleKind"
| "kind_of (BalloonStyleObj _) = BalloonStyleKind"
| "kind_of (StyleUrlObj _) = StyleUrlKind"
| "kind_of (StyleObj _) = StyleKind"
| "kind_of (StyleMapObj _) = StyleMapKind"

definition member_kinds :: "kind set" where
  "member_kinds = {IconStyleKind, LineStyleKind, PolyStyleKind, LabelStyleKind, BalloonStyleKind}"

text \<open>
  What the specification says \<^verbatim>\<open>StyleMap\<close> emits for one slot: a \<^verbatim>\<open>Pair\<close> holding a
  \<^verbatim>\<open>key\<close> child with the slot's name, followed by the slot's encoded content, when the
  slot holds a \<^verbatim>\<open>Style\<close> or a \<^verbatim>\<open>StyleUrl\<close>; nothing for any other value.
\<close>

fun slot_pairs :: "string \<Rightarrow> string \<Rightarrow> pyobj \<Rightarrow> error + element list" where
  "slot_pairs nsp key (StyleObj s) =
     result_bind (Style_etree_element s)
       (\<lambda>c. Inr [Element (nsp @ ''Pair'') [] None [Element (nsp @ ''key'') [] (Some key) [], c]])"
| "slot_pairs nsp key (StyleUrlObj u) =
     result_bind (StyleUrl_etree_element u)
       (\<lambda>c. Inr [Element (nsp @ ''Pair'') [] None [Element (nsp @ ''key'') [] (Some key) [], c]])"
| "slot_pairs nsp key _ = Inr []"


text \<open>
  The children an encoder emits for one field: for a string field guarded by its
  truthiness, for a string field guarded by \<^verbatim>\<open>is not None\<close>, and for a numeric field
  guarded by \<^verbatim>\<open>is not None\<close>; and the attributes of the root element.
\<close>

definition str_child :: "string \<Rightarrow> string option \<Rightarrow> element list" where
  "str_child t s = (if truthy_str s then [Element t [] s []] else [])"

definition opt_child :: "string \<Rightarrow> string option \<Rightarrow> element list" where
  "opt_child t s = (case s of None \<Rightarrow> [] | Some x \<Rightarrow> [Element t [] (Some x) []])"

definition num_child :: "string \<Rightarrow> pynum option \<Rightarrow> element list" where
  "num_child t n = (case n of None \<Rightarrow> [] | Some x \<Rightarrow> [Element t [] (Some (py_str x)) []])"

definition id_attrib :: "string option \<Rightarrow> (string \<times> string) list" where
  "id_attrib oid = (case oid of None \<Rightarrow> [] | Some i \<Rightarrow> [(''id'', i)])"

text \<open>A number that the model prints as Python does: any integer, and a float that
  \<open>pyfloat_ok\<close> admits.\<close>

fun pynum_ok :: "pynum \<Rightarrow> bool" where
  "pynum_ok (IntNum i) = True"
| "pynum_ok (FloatNum f) = pyfloat_ok f"

text \<open>The tag under which a member of a \<^verbatim>\<open>Style\<close> is encoded.\<close>

fun member_tag :: "pyobj \<Rightarrow> string" where
  "member_tag (IconStyleObj s) = ns s @ ''IconStyle''"
| "member_tag (LineStyleObj s) = ns s @ ''LineStyle''"
| "member_tag (PolyStyleObj s) = ns s @ ''PolyStyle''"
| "member_tag (LabelStyleObj s) = ns s @ ''LabelStyle''"
| "member_tag (BalloonStyleObj s) = ns s @ ''BalloonStyle''"
| "member_tag _ = []"



section \<open>Printing and reading numbers\<close>

lemma digit_cases: "d < 10 \<Longrightarrow> d = 0 \<or> d = 1 \<or> d = 2 \<or> d = 3 \<or> d = 4 \<or> d = 5 \<or> d = 6 \<or> d = 7 \<or> d = 8 \<or> d = (9::nat)"
  by arith

lemma digit_val_digit_char: "d < 10 \<Longrightarrow> digit_val (digit_char d) = d"
  using digit_cases [of d] by (auto simp: digit_val_def digit_char_def)

lemma is_digit_digit_char: "d < 10 \<Longrightarrow> is_digit (digit_char d)"
  using digit_cases [of d] by (auto simp: is_digit_def digit_char_def)

lemma not_is_digit_point: "\<not> is_digit CHR ''.''"
  by (simp add: is_digit_def)

lemma digit_char_not_sign: "d < 10 \<Longrightarrow> digit_char d \<noteq> CHR ''-'' \<and> digit_char d \<noteq> CHR ''+''"
  using digit_cases [of d] by (auto simp: digit_char_def)

declare str_nat.simps [simp del]

lemma str_nat_digits: "list_all is_digit (str_nat n)"
proof (induction n rule: str_nat.induct)
  case (1 n)
  show ?case
  proof (cases "n < 10")
    case True
    then show ?thesis by (subst str_nat.simps) (simp add: is_digit_digit_char)
  next
    case False
    with 1 show ?thesis by (subst str_nat.simps) (simp add: is_digit_digit_char)
  qed
qed

lemma str_nat_not_Nil: "str_nat n \<noteq> []"
  by (subst str_nat.simps) simp

lemma nat_of_digits_snoc: "nat_of_digits (s @ [c]) = 10 * nat_of_digits s + digit_val c"
  by (simp add: nat_of_digits_def)

lemma nat_of_digits_str_nat: "nat_of_digits (str_nat n) = n"
proof (induction n rule: str_nat.induct)
  case (1 n)
  show ?case
  proof (cases "n < 10")
    case True
    then show ?thesis
      by (subst str_nat.simps) (simp add: nat_of_digits_def digit_val_digit_char)
  next
    case False
    with 1 have "nat_of_digits (str_nat (n div 10)) = n div 10" by simp
    with False show ?thesis
      by (subst str_nat.simps) (simp add: nat_of_digits_snoc digit_val_digit_char)
  qed
qed

lemma hd_str_nat_not_sign: "\<exists>c r. str_nat n = c # r \<and> c \<noteq> CHR ''-'' \<and> c \<noteq> CHR ''+''"
proof -
  obtain c r where cr: "str_nat n = c # r"
    using str_nat_not_Nil [of n] by (cases "str_nat n") auto
  have "is_digit c" using str_nat_digits [of n] cr by simp
  then have "c \<noteq> CHR ''-'' \<and> c \<noteq> CHR ''+''" by (auto simp: is_digit_def)
  with cr show ?thesis by blast
qed

lemma takeWhile_digits: "list_all is_digit xs \<Longrightarrow> takeWhile is_digit (xs @ CHR ''.'' # ys) = xs"
  by (induction xs) (simp_all add: not_is_digit_point)

lemma dropWhile_digits: "list_all is_digit xs \<Longrightarrow> dropWhile is_digit (xs @ CHR ''.'' # ys) = CHR ''.'' # ys"
  by (induction xs) (simp_all add: not_is_digit_point)

lemma takeWhile_all: "list_all P xs \<Longrightarrow> takeWhile P xs = xs"
  by (induction xs) simp_all

lemma dropWhile_all: "list_all P xs \<Longrightarrow> dropWhile P xs = []"
  by (induction xs) simp_all

lemma strip_zeros_id: "ds = [] \<or> last ds \<noteq> 0 \<Longrightarrow> strip_zeros ds = ds"
  by (cases ds rule: rev_cases) (auto simp: strip_zeros_def)

lemma map_digit_val_digit_char: "list_all (\<lambda>d. d < 10) ds \<Longrightarrow> map (digit_val \<circ> digit_char) ds = ds"
  by (induction ds) (simp_all add: digit_val_digit_char)

lemma list_all_is_digit_map: "list_all (\<lambda>d. d < 10) ds \<Longrightarrow> list_all is_digit (map digit_char ds)"
  by (induction ds) (simp_all add: is_digit_digit_char)

lemma float_unsigned_str:
  assumes "list_all (\<lambda>d. d < 10) fr" "fr = [] \<or> last fr \<noteq> 0"
  shows "float_unsigned neg (str_nat w @ ''.'' @ (if fr = [] then ''0'' else map digit_char fr))
           = Inr (PyFloat neg w fr)"
proof (cases "fr = []")
  case True
  have z: "strip_zeros [digit_val CHR ''0''] = []"
    by (simp add: strip_zeros_def digit_val_def)
  from True show ?thesis
    by (simp add: float_unsigned_def takeWhile_digits dropWhile_digits str_nat_digits
        nat_of_digits_str_nat str_nat_not_Nil z is_digit_def)
next
  case False
  with assms show ?thesis
    by (simp add: float_unsigned_def takeWhile_digits dropWhile_digits str_nat_digits
        nat_of_digits_str_nat str_nat_not_Nil list_all_is_digit_map map_digit_val_digit_char
        strip_zeros_id)
qed

lemma float_of_str_str_float:
  assumes "pyfloat_ok f"
  shows "float_of_str (str_float f) = Inr f"
proof -
  obtain neg w fr where f: "f = PyFloat neg w fr" by (cases f)
  from assms f have ok: "list_all (\<lambda>d. d < 10) fr" "fr = [] \<or> last fr \<noteq> 0"
    by (auto simp: pyfloat_ok_def)
  obtain c r where cr: "str_nat w = c # r" "c \<noteq> CHR ''-''" "c \<noteq> CHR ''+''"
    using hd_str_nat_not_sign [of w] by blast
  show ?thesis
  proof (cases neg)
    case True
    with f float_unsigned_str [OF ok, of True w] show ?thesis
      by (cases "fr = []") (simp_all add: float_of_str_def str_float_def)
  next
    case False
    from float_unsigned_str [OF ok, of False w] have
      "float_unsigned False (c # r @ ''.'' @ (if fr = [] then ''0'' else map digit_char fr))
         = Inr (PyFloat False w fr)"
      by (simp add: cr)
    with False f cr show ?thesis
      by (cases "fr = []") (simp_all add: float_of_str_def str_float_def)
  qed
qed

lemma float_unsigned_str_nat: "float_unsigned neg (str_nat n) = Inr (PyFloat neg n [])"
  by (simp add: float_unsigned_def takeWhile_all dropWhile_all str_nat_digits
      nat_of_digits_str_nat str_nat_not_Nil)

lemma float_of_str_str_int: "float_of_str (py_str (IntNum i)) = Inr (PyFloat (i < 0) (nat \<bar>i\<bar>) [])"
proof (cases "i < 0")
  case True
  then show ?thesis
    by (simp add: float_of_str_def float_unsigned_str_nat)
next
  case False
  obtain c r where cr: "str_nat (nat i) = c # r" "c \<noteq> CHR ''-''" "c \<noteq> CHR ''+''"
    using hd_str_nat_not_sign [of "nat i"] by blast
  have "float_unsigned False (c # r) = Inr (PyFloat False (nat i) [])"
    using float_unsigned_str_nat [of False "nat i"] by (simp add: cr)
  with False cr show ?thesis
    by (simp add: float_of_str_def)
qed

lemma py_int_float_str_int: "result_bind (float_of_str (py_str (IntNum i))) (\<lambda>f. Inr (py_int f)) = (Inr i :: error + int)"
  unfolding float_of_str_str_int by (simp add: result_bind_def py_int_def)

section \<open>Looking up children\<close>

lemma find_append_cases:
  "find P (xs @ ys) = (case find P xs of Some x \<Rightarrow> Some x | None \<Rightarrow> find P ys)"
  by (induction xs) simp_all

lemma etree_find_SubElement:
  "etree_find (SubElement e t txt) u =
     (case etree_find e u of Some c \<Rightarrow> Some c
      | None \<Rightarrow> if t = u then Some (Element t [] txt []) else None)"
  by (simp add: etree_find_def SubElement_def append_child_def find_append_cases split: option.splits)

lemma etree_find_BaseObject: "etree_find (BaseObject_etree_element nsp name oid) u = None"
  by (simp add: etree_find_def BaseObject_etree_element_def)

section \<open>The shape of encoded elements\<close>

lemma ColorStyle_from_element_ns [simp]:
  "ns (ColorStyle_from_element self element) = ns self"
  by (simp add: ColorStyle_from_element_def Let_def split: option.splits)




lemma ColorStyle_etree_element_eq:
  "ColorStyle_etree_element name self =
     Element (ns self @ name) (id_attrib (id' self)) None
       (str_child (ns self @ ''color'') (color self) @
        str_child (ns self @ ''colorMode'') (colorMode self))"
  by (simp add: ColorStyle_etree_element_def Let_def BaseObject_etree_element_def
      SubElement_def append_child_def str_child_def id_attrib_def)

lemma IconStyle_etree_element_eq:
  "IconStyle_etree_element self =
     Element (ns self @ ''IconStyle'') (id_attrib (id' self)) None
       (str_child (ns self @ ''color'') (color self) @
        str_child (ns self @ ''colorMode'') (colorMode self) @
        num_child (ns self @ ''scale'') (icon_style.scale self) @
        (if truthy_num (heading self)
         then [Element (ns self @ ''heading'') [] (Some (py_str (the (heading self)))) []]
         else []) @
        (if truthy_str (icon_href self)
         then [Element (ns self @ ''Icon'') [] None
                 [Element (ns self @ ''href'') [] (icon_href self) []]]
         else []))"
  by (simp add: IconStyle_etree_element_def Let_def ColorStyle_etree_element_eq
      SubElement_def append_child_def num_child_def split: option.splits)

lemma LineStyle_etree_element_eq:
  "LineStyle_etree_element self =
     Element (ns self @ ''LineStyle'') (id_attrib (id' self)) None
       (str_child (ns self @ ''color'') (color self) @
        str_child (ns self @ ''colorMode'') (colorMode self) @
        num_child (ns self @ ''width'') (width self))"
  by (simp add: LineStyle_etree_element_def Let_def ColorStyle_etree_element_eq
      SubElement_def append_child_def num_child_def split: option.splits)

lemma PolyStyle_etree_element_eq:
  "PolyStyle_etree_element self =
     Element (ns self @ ''PolyStyle'') (id_attrib (id' self)) None
       (str_child (ns self @ ''color'') (color self) @
        str_child (ns self @ ''colorMode'') (colorMode self) @
        num_child (ns self @ ''fill'') (fill self) @
        num_child (ns self @ ''outline'') (outline self))"
  by (simp add: PolyStyle_etree_element_def Let_def ColorStyle_etree_element_eq
      SubElement_def append_child_def num_child_def split: option.splits)

lemma LabelStyle_etree_element_eq:
  "LabelStyle_etree_element self =
     Element (ns self @ ''LabelStyle'') (id_attrib (id' self)) None
       (str_child (ns self @ ''color'') (color self) @
        str_child (ns self @ ''colorMode'') (colorMode self) @
        num_child (ns self @ ''scale'') (label_style.scale self))"
  by (simp add: LabelStyle_etree_element_def Let_def ColorStyle_etree_element_eq
      SubElement_def append_child_def num_child_def split: option.splits)

lemma BalloonStyle_etree_element_eq:
  "BalloonStyle_etree_element self =
     Element (ns self @ ''BalloonStyle'') (id_attrib (id' self)) None
       (opt_child (ns self @ ''bgColor'') (bgColor self) @
        opt_child (ns self @ ''textColor'') (textColor self) @
        opt_child (ns self @ ''text'') (balloon_text self) @
        opt_child (ns self @ ''displayMode'') (displayMode self))"
  by (simp add: BalloonStyle_etree_element_def Let_def BaseObject_etree_element_def
      SubElement_def append_child_def opt_child_def id_attrib_def split: option.splits)

lemma py_float_py_str:
  "pynum_ok x \<Longrightarrow> \<exists>f. py_float (Some (py_str x)) = Inr f"
proof (cases x)
  case (IntNum i)
  then show ?thesis using float_of_str_str_int [of i] by (simp add: py_float_def)
next
  case (FloatNum f)
  assume "pynum_ok x"
  with FloatNum show ?thesis using float_of_str_str_float [of f] by (simp add: py_float_def)
qed

lemma find_str_child:
  "find (\<lambda>c. tag c = u) (str_child t s) =
     (if truthy_str s \<and> t = u then Some (Element t [] s []) else None)"
  by (simp add: str_child_def)

lemma find_num_child:
  "find (\<lambda>c. tag c = u) (num_child t n) =
     (case n of None \<Rightarrow> None
      | Some x \<Rightarrow> if t = u then Some (Element t [] (Some (py_str x)) []) else None)"
  by (simp add: num_child_def split: option.splits)

lemma find_opt_child:
  "find (\<lambda>c. tag c = u) (opt_child t s) =
     (case s of None \<Rightarrow> None
      | Some x \<Rightarrow> if t = u then Some (Element t [] (Some x) []) else None)"
  by (simp add: opt_child_def split: option.splits)

lemmas find_children =
  etree_find_def find_append_cases find_str_child find_num_child find_opt_child

lemma IconStyle_from_element_heading_absent:
  assumes "etree_find e (ns s0 @ ''heading'') = None"
    and "IconStyle_from_element s0 e = Inr s'"
  shows "heading s' = heading s0"
proof -
  have h: "heading (ColorStyle_from_element s0 e) = heading s0"
    by (simp add: ColorStyle_from_element_def Let_def split: option.splits)
  from assms show ?thesis
    unfolding IconStyle_from_element_def Let_def
    by (auto simp: result_bind_def h split: option.splits sum.splits)
qed

lemma IconStyle_from_element_total:
  assumes "case etree_find e (ns s0 @ ''scale'') of
             None \<Rightarrow> True | Some c \<Rightarrow> \<exists>f. py_float (text' c) = Inr f"
    and "case etree_find e (ns s0 @ ''heading'') of
             None \<Rightarrow> True | Some c \<Rightarrow> \<exists>f. py_float (text' c) = Inr f"
  shows "\<exists>s'. IconStyle_from_element s0 e = Inr s'"
  using assms unfolding IconStyle_from_element_def Let_def
  by (auto simp: result_bind_def split: option.splits sum.splits)

section \<open>StyleUrl: encoding needs a url\<close>

text \<open>
  C5. Encoding a \<^verbatim>\<open>StyleUrl\<close> whose url is \<^verbatim>\<open>None\<close> or the empty string raises
  \<^verbatim>\<open>ValueError\<close> and returns no element; for every non-empty url it returns one
  element, tagged \<^verbatim>\<open>{ns}styleUrl\<close>, without children, whose text is the url.
\<close>

theorem StyleUrl_etree_element_url:
  "((url self = None \<or> url self = Some []) \<longrightarrow> StyleUrl_etree_element self = Inl ValueError) \<and>
   (\<forall>u. url self = Some u \<and> u \<noteq> [] \<longrightarrow>
      StyleUrl_etree_element self =
        Inr (Element (ns self @ ''styleUrl'')
               (case id' self of None \<Rightarrow> [] | Some i \<Rightarrow> [(''id'', i)]) (Some u) []))"
  by (auto simp: StyleUrl_etree_element_def truthy_str_def set_text_def
        BaseObject_etree_element_def)

theorem StyleUrl_etree_element_url_witness:
  "StyleUrl_etree_element \<lparr>ns = ''{kml}'', id' = None, url = None\<rparr> = Inl ValueError \<and>
   StyleUrl_etree_element \<lparr>ns = ''{kml}'', id' = None, url = Some ''''\<rparr> = Inl ValueError \<and>
   StyleUrl_etree_element \<lparr>ns = ''{kml}'', id' = Some ''u1'', url = Some ''#s1''\<rparr> =
     Inr (Element ''{kml}styleUrl'' [(''id'', ''u1'')] (Some ''#s1'') [])"
  using StyleUrl_etree_element_url [of "\<lparr>ns = ''{kml}'', id' = None, url = None\<rparr>"]
    StyleUrl_etree_element_url [of "\<lparr>ns = ''{kml}'', id' = None, url = Some ''''\<rparr>"]
    StyleUrl_etree_element_url [of "\<lparr>ns = ''{kml}'', id' = Some ''u1'', url = Some ''#s1''\<rparr>"]
  by simp

section \<open>Style: admission of members\<close>

text \<open>
  C2. \<^verbatim>\<open>Style.append_style\<close> appends the member exactly when its kind is one of
  IconStyle, LineStyle, PolyStyle, LabelStyle and BalloonStyle; for a member of any other
  kind it raises \<^verbatim>\<open>TypeError\<close> and the bundle is as it was.
\<close>

theorem Style_append_style_admission:
  "Style_append_style self x =
     (if kind_of x \<in> member_kinds
      then (None, Style (style_ns self) (style_id self) (private_styles self @ [x]))
      else (Some TypeError, self))"
  by (cases x) (simp_all add: Style_append_style_def member_kinds_def)

theorem Style_append_style_admission_witness:
  "Style_append_style (Style ''{kml}'' None []) (LineStyleObj (LineStyle_init ''{kml}'')) =
     (None, Style ''{kml}'' None [LineStyleObj (LineStyle_init ''{kml}'')]) \<and>
   Style_append_style (Style ''{kml}'' None []) (BalloonStyleObj (BalloonStyle_init ''{kml}'')) =
     (None, Style ''{kml}'' None [BalloonStyleObj (BalloonStyle_init ''{kml}'')]) \<and>
   Style_append_style (Style ''{kml}'' None []) (StyleUrlObj (StyleUrl_init ''{kml}'')) =
     (Some TypeError, Style ''{kml}'' None []) \<and>
   Style_append_style (Style ''{kml}'' None []) (StyleObj (Style_init ''{kml}'')) =
     (Some TypeError, Style ''{kml}'' None []) \<and>
   Style_append_style (Style ''{kml}'' None []) PyNone = (Some TypeError, Style ''{kml}'' None [])"
  using Style_append_style_admission [of "Style ''{kml}'' None []" "LineStyleObj (LineStyle_init ''{kml}'')"]
    Style_append_style_admission [of "Style ''{kml}'' None []" "BalloonStyleObj (BalloonStyle_init ''{kml}'')"]
    Style_append_style_admission [of "Style ''{kml}'' None []" "StyleUrlObj (StyleUrl_init ''{kml}'')"]
    Style_append_style_admission [of "Style ''{kml}'' None []" "StyleObj (Style_init ''{kml}'')"]
    Style_append_style_admission [of "Style ''{kml}'' None []" PyNone]
  by (simp add: member_kinds_def)

section \<open>BalloonStyle: the legacy colour tag\<close>

text \<open>
  C8. Decoding a \<^verbatim>\<open>BalloonStyle\<close> takes \<^verbatim>\<open>bgColor\<close> from the \<^verbatim>\<open>bgColor\<close> child when
  there is one, from the legacy \<^verbatim>\<open>color\<close> child only when there is no \<^verbatim>\<open>bgColor\<close>
  child, and leaves it as it was when there is neither; encoding never emits a
  \<^verbatim>\<open>color\<close> child.
\<close>

theorem BalloonStyle_color_fallback:
  "bgColor (BalloonStyle_from_element self element) =
     (case etree_find element (ns self @ ''bgColor'') of
        Some c \<Rightarrow> text' c
      | None \<Rightarrow>
          (case etree_find element (ns self @ ''color'') of
             Some c \<Rightarrow> text' c
           | None \<Rightarrow> bgColor self)) \<and>
   etree_find (BalloonStyle_etree_element self) (ns self @ ''color'') = None"
  by (simp add: BalloonStyle_from_element_def BalloonStyle_etree_element_def Let_def
      etree_find_SubElement etree_find_BaseObject split: option.splits)

theorem BalloonStyle_color_fallback_witness:
  "bgColor (BalloonStyle_from_element (BalloonStyle_init ''{k}'')
      (Element ''{k}BalloonStyle'' [] None
         [Element ''{k}color'' [] (Some ''ff0000ff'') [],
          Element ''{k}bgColor'' [] (Some ''ffffffff'') []])) = Some ''ffffffff'' \<and>
   bgColor (BalloonStyle_from_element (BalloonStyle_init ''{k}'')
      (Element ''{k}BalloonStyle'' [] None
         [Element ''{k}color'' [] (Some ''ff0000ff'') []])) = Some ''ff0000ff'' \<and>
   etree_find (BalloonStyle_etree_element
      \<lparr>ns = ''{k}'', id' = None, bgColor = Some ''ff0000ff'', textColor = None,
        balloon_text = None, displayMode = None\<rparr>) ''{k}color'' = None"
  using BalloonStyle_color_fallback [of "BalloonStyle_init ''{k}''"
      "Element ''{k}BalloonStyle'' [] None
         [Element ''{k}color'' [] (Some ''ff0000ff'') [],
          Element ''{k}bgColor'' [] (Some ''ffffffff'') []]"]
    BalloonStyle_color_fallback [of "BalloonStyle_init ''{k}''"
      "Element ''{k}BalloonStyle'' [] None
         [Element ''{k}color'' [] (Some ''ff0000ff'') []]"]
    BalloonStyle_color_fallback [of
      "\<lparr>ns = ''{k}'', id' = None, bgColor = Some ''ff0000ff'', textColor = None,
        balloon_text = None, displayMode = None\<rparr>"]
  by (simp add: BalloonStyle_init_def etree_find_def)

section \<open>Colour styles: decoding sets only what it finds\<close>

text \<open>
  C9. \<^verbatim>\<open>_ColorStyle.from_element\<close> sets \<^verbatim>\<open>color\<close> and \<^verbatim>\<open>colorMode\<close> to the text of the
  child when the element has that child, and leaves the field at its prior value when it
  has not; the namespace and the fields of the subclass are not touched, so no default is
  applied again.
\<close>

theorem ColorStyle_from_element_frame:
  "color (ColorStyle_from_element self element) =
     (case etree_find element (ns self @ ''color'') of
        None \<Rightarrow> color self | Some c \<Rightarrow> text' c) \<and>
   colorMode (ColorStyle_from_element self element) =
     (case etree_find element (ns self @ ''colorMode'') of
        None \<Rightarrow> colorMode self | Some c \<Rightarrow> text' c) \<and>
   ns (ColorStyle_from_element self element) = ns self \<and>
   color_style.more (ColorStyle_from_element self element) = color_style.more self"
  by (simp add: ColorStyle_from_element_def Let_def split: option.splits)

theorem ColorStyle_from_element_frame_witness:
  "color (ColorStyle_from_element
     \<lparr>ns = ''{k}'', id' = None, color = Some ''ff0000ff'', colorMode = Some ''normal''\<rparr>
     (Element ''{k}LineStyle'' [] None [Element ''{k}colorMode'' [] (Some ''random'') []])) =
     Some ''ff0000ff'' \<and>
   colorMode (ColorStyle_from_element
     \<lparr>ns = ''{k}'', id' = None, color = Some ''ff0000ff'', colorMode = Some ''normal''\<rparr>
     (Element ''{k}LineStyle'' [] None [Element ''{k}colorMode'' [] (Some ''random'') []])) =
     Some ''random''"
  using ColorStyle_from_element_frame [of
     "\<lparr>ns = ''{k}'', id' = None, color = Some ''ff0000ff'', colorMode = Some ''normal''\<rparr>"
     "Element ''{k}LineStyle'' [] None [Element ''{k}colorMode'' [] (Some ''random'') []]"]
  by (simp add: etree_find_def)

section \<open>StyleMap: one Pair per populated slot\<close>

text \<open>
  C7. Encoding a \<^verbatim>\<open>StyleMap\<close> emits, under the \<^verbatim>\<open>StyleMap\<close> element, what
  \<open>slot_pairs\<close> gives for the slot \<^verbatim>\<open>normal\<close> and then what it gives for the slot
  \<^verbatim>\<open>highlight\<close>: for a slot holding a \<^verbatim>\<open>Style\<close> or a \<^verbatim>\<open>StyleUrl\<close>, one \<^verbatim>\<open>Pair\<close> with a
  \<^verbatim>\<open>key\<close> child naming the slot followed by the encoded content; for a slot holding
  anything else, nothing, and no error. An error comes only from encoding the content
  of a slot.
\<close>

theorem StyleMap_etree_element_pairs:
  "StyleMap_etree_element (StyleMap nsp oid n h) =
     result_bind (slot_pairs nsp ''normal'' n) (\<lambda>pn.
     result_bind (slot_pairs nsp ''highlight'' h) (\<lambda>ph.
       Inr (Element (nsp @ ''StyleMap'') (case oid of None \<Rightarrow> [] | Some i \<Rightarrow> [(''id'', i)]) None
              (pn @ ph))))"
proof -
  have slot: "\<And>key x e.
      (if py_truthy x \<and> isinstance_Style_StyleUrl x
       then result_bind (etree_element x)
              (\<lambda>c. Inr (append_child e
                 (Element (nsp @ ''Pair'') [] None [Element (nsp @ ''key'') [] (Some key) [], c])))
       else Inr e) =
      result_bind (slot_pairs nsp key x)
        (\<lambda>ps. Inr (Element (tag e) (attrib e) (text' e) (children e @ ps)))"
    subgoal for key x e
      by (cases x; cases e)
        (simp_all add: result_bind_def append_child_def Style_etree_element_def split: sum.splits)
    done
  show ?thesis
    unfolding StyleMap_etree_element_def etree_element.simps Let_def slot
    by (simp add: result_bind_def BaseObject_etree_element_def split: sum.splits)
qed

theorem StyleMap_etree_element_pairs_witness:
  "StyleMap_etree_element
     (StyleMap ''{k}'' None (StyleUrlObj \<lparr>ns = ''{k}'', id' = None, url = Some ''#s1''\<rparr>) PyNone) =
   Inr (Element ''{k}StyleMap'' [] None
     [Element ''{k}Pair'' [] None
        [Element ''{k}key'' [] (Some ''normal'') [],
         Element ''{k}styleUrl'' [] (Some ''#s1'') []]]) \<and>
   StyleMap_etree_element
     (StyleMap ''{k}'' None (PyStr ''x'')
        (StyleObj (Style ''{k}'' None [LineStyleObj (LineStyle_init ''{k}'')]))) =
   Inr (Element ''{k}StyleMap'' [] None
     [Element ''{k}Pair'' [] None
        [Element ''{k}key'' [] (Some ''highlight'') [],
         Element ''{k}Style'' [] None
           [Element ''{k}LineStyle'' [] None [Element ''{k}width'' [] (Some ''1'') []]]]])"
  using StyleMap_etree_element_pairs [of "''{k}''" None
      "StyleUrlObj \<lparr>ns = ''{k}'', id' = None, url = Some ''#s1''\<rparr>" PyNone]
    StyleMap_etree_element_pairs [of "''{k}''" None "PyStr ''x''"
      "StyleObj (Style ''{k}'' None [LineStyleObj (LineStyle_init ''{k}'')])"]
  by (simp add: result_bind_def StyleUrl_etree_element_def truthy_str_def set_text_def
      BaseObject_etree_element_def Style_etree_element_def LineStyle_etree_element_def
      LineStyle_init_def ColorStyle_etree_element_def SubElement_def append_child_def
      str_nat.simps digit_char_def)

section \<open>StyleMap: strict decoding of a Pair\<close>









section \<open>PolyStyle: booleans read through float\<close>




section \<open>IconStyle: a heading of zero is not encoded\<close>

text \<open>
  C10. For an \<^verbatim>\<open>IconStyle\<close> whose heading is set to a number that is false (\<^verbatim>\<open>0.0\<close>,
  \<^verbatim>\<open>-0.0\<close> or \<^verbatim>\<open>0\<close>), the encoded element has no \<^verbatim>\<open>heading\<close> child, and decoding it
  into a fresh \<^verbatim>\<open>IconStyle\<close> succeeds (when the scale is a number that prints as in
  Python) and leaves the heading unset; for every other heading the encoded element has
  a \<^verbatim>\<open>heading\<close> child whose text is \<^verbatim>\<open>str(heading)\<close>.
\<close>

theorem IconStyle_heading_truthiness:
  "(heading self = Some h \<and> \<not> truthy_num (Some h) \<longrightarrow>
      etree_find (IconStyle_etree_element self) (ns self @ ''heading'') = None \<and>
      ((case icon_style.scale self of None \<Rightarrow> True | Some x \<Rightarrow> pynum_ok x) \<longrightarrow>
       (\<exists>s'. IconStyle_from_element (IconStyle_init (ns self))
               (IconStyle_etree_element self) = Inr s' \<and>
             heading s' = None))) \<and>
   (heading self = Some h \<and> truthy_num (Some h) \<longrightarrow>
      etree_find (IconStyle_etree_element self) (ns self @ ''heading'') =
        Some (Element (ns self @ ''heading'') [] (Some (py_str h)) []))"
proof (intro conjI impI; elim conjE)
  assume h: "heading self = Some h" "\<not> truthy_num (Some h)"
  then show "etree_find (IconStyle_etree_element self) (ns self @ ''heading'') = None"
    by (simp add: IconStyle_etree_element_eq find_children split: option.splits)
next
  assume h: "heading self = Some h" "\<not> truthy_num (Some h)"
    and sc: "case icon_style.scale self of None \<Rightarrow> True | Some x \<Rightarrow> pynum_ok x"
  let ?e = "IconStyle_etree_element self"
  let ?s0 = "IconStyle_init (ns self)"
  have ns0: "ns ?s0 = ns self" and h0: "heading ?s0 = None"
    by (simp_all add: IconStyle_init_def)
  have noh: "etree_find ?e (ns ?s0 @ ''heading'') = None"
    using h by (simp add: ns0 IconStyle_etree_element_eq find_children split: option.splits)
  have scale: "case etree_find ?e (ns ?s0 @ ''scale'') of
                 None \<Rightarrow> True | Some c \<Rightarrow> \<exists>f. py_float (text' c) = Inr f"
    using sc py_float_py_str
    by (auto simp: ns0 IconStyle_etree_element_eq find_children split: option.splits if_splits)
  obtain s' where s': "IconStyle_from_element ?s0 ?e = Inr s'"
    using IconStyle_from_element_total [of ?e ?s0] scale noh by auto
  have "heading s' = None"
    using IconStyle_from_element_heading_absent [OF noh s'] h0 by simp
  with s' show "\<exists>s'. IconStyle_from_element ?s0 ?e = Inr s' \<and> heading s' = None"
    by blast
next
  assume h: "heading self = Some h" "truthy_num (Some h)"
  then show "etree_find (IconStyle_etree_element self) (ns self @ ''heading'') =
        Some (Element (ns self @ ''heading'') [] (Some (py_str h)) [])"
    by (simp add: IconStyle_etree_element_eq find_children split: option.splits)
qed


theorem IconStyle_heading_truthiness_witness:
  "etree_find (IconStyle_etree_element
       \<lparr>ns = ''{k}'', id' = None, color = None, colorMode = None,
        icon_style.scale = Some (FloatNum (PyFloat False 1 [])),
        heading = Some (FloatNum (PyFloat False 0 [])), icon_href = None\<rparr>)
     ''{k}heading'' = None \<and>
   (\<exists>s'. IconStyle_from_element (IconStyle_init ''{k}'')
       (IconStyle_etree_element
          \<lparr>ns = ''{k}'', id' = None, color = None, colorMode = None,
           icon_style.scale = Some (FloatNum (PyFloat False 1 [])),
           heading = Some (FloatNum (PyFloat False 0 [])), icon_href = None\<rparr>) = Inr s' \<and>
      heading s' = None) \<and>
   etree_find (IconStyle_etree_element
       \<lparr>ns = ''{k}'', id' = None, color = None, colorMode = None,
        icon_style.scale = Some (FloatNum (PyFloat False 1 [])),
        heading = Some (FloatNum (PyFloat False 45 [5])), icon_href = None\<rparr>)
     ''{k}heading'' = Some (Element ''{k}heading'' [] (Some ''45.5'') [])"
  using IconStyle_heading_truthiness [of
      "\<lparr>ns = ''{k}'', id' = None, color = None, colorMode = None,
        icon_style.scale = Some (FloatNum (PyFloat False 1 [])),
        heading = Some (FloatNum (PyFloat False 0 [])), icon_href = None\<rparr>"
      "FloatNum (PyFloat False 0 [])"]
    IconStyle_heading_truthiness [of
      "\<lparr>ns = ''{k}'', id' = None, color = None, colorMode = None,
        icon_style.scale = Some (FloatNum (PyFloat False 1 [])),
        heading = Some (FloatNum (PyFloat False 45 [5])), icon_href = None\<rparr>"
      "FloatNum (PyFloat False 45 [5])"]
  by (simp add: pyfloat_ok_def str_float_def str_nat.simps digit_char_def)

section \<open>Style: canonical order of the members\<close>

lemma IconStyle_from_element_ns: "IconStyle_from_element s0 e = Inr s \<Longrightarrow> ns s = ns s0"
  unfolding IconStyle_from_element_def Let_def
  by (auto simp: result_bind_def split: option.splits sum.splits)

lemma LineStyle_from_element_ns: "LineStyle_from_element s0 e = Inr s \<Longrightarrow> ns s = ns s0"
  unfolding LineStyle_from_element_def Let_def
  by (auto simp: result_bind_def split: option.splits sum.splits)

lemma PolyStyle_from_element_ns: "PolyStyle_from_element s0 e = Inr s \<Longrightarrow> ns s = ns s0"
  unfolding PolyStyle_from_element_def Let_def
  by (auto simp: result_bind_def split: option.splits sum.splits)

lemma LabelStyle_from_element_ns: "LabelStyle_from_element s0 e = Inr s \<Longrightarrow> ns s = ns s0"
  unfolding LabelStyle_from_element_def Let_def
  by (auto simp: result_bind_def split: option.splits sum.splits)

lemma BalloonStyle_from_element_ns: "ns (BalloonStyle_from_element s0 e) = ns s0"
  by (simp add: BalloonStyle_from_element_def Let_def split: option.splits)

lemma member_etree_element:
  "isinstance_ColorStyle_BalloonStyle x \<Longrightarrow>
     \<exists>c. etree_element x = Inr c \<and> tag c = member_tag x"
  by (cases x)
    (simp_all add: IconStyle_etree_element_eq LineStyle_etree_element_eq
      PolyStyle_etree_element_eq LabelStyle_etree_element_eq BalloonStyle_etree_element_eq)

lemma Style_etree_loop_tags:
  "list_all isinstance_ColorStyle_BalloonStyle ms \<Longrightarrow>
     \<exists>e'. Style_etree_loop e ms = Inr e' \<and>
          map tag (children e') = map tag (children e) @ map member_tag ms"
proof (induction ms arbitrary: e)
  case Nil
  then show ?case by simp
next
  case (Cons x ms)
  then have x: "isinstance_ColorStyle_BalloonStyle x"
    and ms: "list_all isinstance_ColorStyle_BalloonStyle ms" by simp_all
  obtain c where c: "etree_element x = Inr c" "tag c = member_tag x"
    using member_etree_element [OF x] by blast
  obtain e' where e': "Style_etree_loop (append_child e c) ms = Inr e'"
    "map tag (children e') = map tag (children (append_child e c)) @ map member_tag ms"
    using Cons.IH [OF ms, of "append_child e c"] by blast
  show ?case
    using x c e' by (simp add: result_bind_def append_child_def)
qed


lemma Style_from_element_members:
  assumes "Style_from_element (Style nsp oid ms0) element = Inr s"
  shows "\<exists>ms. s = Style nsp (BaseObject_from_element oid element) (ms0 @ ms) \<and>
           list_all isinstance_ColorStyle_BalloonStyle ms \<and>
           map member_tag ms =
             filter (\<lambda>t. etree_find element t \<noteq> None)
               (map ((@) nsp)
                  [''IconStyle'', ''LineStyle'', ''PolyStyle'', ''LabelStyle'', ''BalloonStyle''])"
  using assms
  unfolding Style_from_element_def Let_def
  by (auto simp: result_bind_def raise_or_return_def Style_append_style_def
      IconStyle_init_def LineStyle_init_def PolyStyle_init_def LabelStyle_init_def
      BalloonStyle_init_def BalloonStyle_from_element_ns
      dest!: IconStyle_from_element_ns LineStyle_from_element_ns PolyStyle_from_element_ns
        LabelStyle_from_element_ns
      split: option.splits sum.splits)

text \<open>
  C3. When decoding a \<^verbatim>\<open>Style\<close> element into a fresh \<^verbatim>\<open>Style\<close> succeeds, encoding the
  result succeeds, and the tags of the children it emits are those of the five names
  \<^verbatim>\<open>IconStyle\<close>, \<^verbatim>\<open>LineStyle\<close>, \<^verbatim>\<open>PolyStyle\<close>, \<^verbatim>\<open>LabelStyle\<close>, \<^verbatim>\<open>BalloonStyle\<close>, in this
  order, that the source element has a child for, each once: whatever the order of the
  children in the source.
\<close>

theorem Style_decode_encode_canonical_order:
  assumes "Style_from_element (Style_init nsp) element = Inr s"
  shows "\<exists>e. Style_etree_element s = Inr e \<and>
           map tag (children e) =
             filter (\<lambda>t. etree_find element t \<noteq> None)
               (map ((@) nsp)
                  [''IconStyle'', ''LineStyle'', ''PolyStyle'', ''LabelStyle'', ''BalloonStyle'']) \<and>
           distinct (map tag (children e))"
proof -
  let ?names = "[''IconStyle'', ''LineStyle'', ''PolyStyle'', ''LabelStyle'', ''BalloonStyle'']"
  obtain ms where ms: "s = Style nsp (BaseObject_from_element None element) ms"
    "list_all isinstance_ColorStyle_BalloonStyle ms"
    "map member_tag ms = filter (\<lambda>t. etree_find element t \<noteq> None) (map ((@) nsp) ?names)"
    using Style_from_element_members [of nsp None "[]" element s] assms
    by (auto simp: Style_init_def)
  let ?root = "BaseObject_etree_element nsp ''Style'' (BaseObject_from_element None element)"
  obtain e where e: "Style_etree_loop ?root ms = Inr e"
    "map tag (children e) = map tag (children ?root) @ map member_tag ms"
    using Style_etree_loop_tags [OF ms(2), of ?root] by blast
  have enc: "Style_etree_element s = Inr e"
    using e(1) ms(1) by (simp add: Style_etree_element_def)
  have tags: "map tag (children e) =
      filter (\<lambda>t. etree_find element t \<noteq> None) (map ((@) nsp) ?names)"
    using e(2) ms(3) by (simp add: BaseObject_etree_element_def)
  have "distinct (map ((@) nsp) ?names)" by simp
  then have "distinct (map tag (children e))"
    unfolding tags by (rule distinct_filter)
  with enc tags show ?thesis by blast
qed

theorem Style_decode_encode_canonical_order_witness:
  "\<exists>s e. Style_from_element (Style_init ''{k}'')
       (Element ''{k}Style'' [] None
          [Element ''{k}LabelStyle'' [] None [],
           Element ''{k}IconStyle'' [] None [],
           Element ''{k}PolyStyle'' [] None [],
           Element ''{k}LineStyle'' [] None [],
           Element ''{k}BalloonStyle'' [] None []]) = Inr s \<and>
     Style_etree_element s = Inr e \<and>
     map tag (children e) =
       [''{k}IconStyle'', ''{k}LineStyle'', ''{k}PolyStyle'', ''{k}LabelStyle'',
        ''{k}BalloonStyle'']"
proof -
  let ?E = "Element ''{k}Style'' [] None
          [Element ''{k}LabelStyle'' [] None [],
           Element ''{k}IconStyle'' [] None [],
           Element ''{k}PolyStyle'' [] None [],
           Element ''{k}LineStyle'' [] None [],
           Element ''{k}BalloonStyle'' [] None []]"
  let ?S = "Style ''{k}'' None
          [IconStyleObj (IconStyle_init ''{k}''), LineStyleObj (LineStyle_init ''{k}''),
           PolyStyleObj (PolyStyle_init ''{k}''), LabelStyleObj (LabelStyle_init ''{k}''),
           BalloonStyleObj (BalloonStyle_init ''{k}'')]"
  have dec: "Style_from_element (Style_init ''{k}'') ?E = Inr ?S"
    by (simp add: Style_from_element_def Style_init_def etree_find_def result_bind_def
        raise_or_return_def Style_append_style_def BaseObject_from_element_def
        IconStyle_from_element_def LineStyle_from_element_def PolyStyle_from_element_def
        LabelStyle_from_element_def BalloonStyle_from_element_def ColorStyle_from_element_def
        IconStyle_init_def LineStyle_init_def PolyStyle_init_def LabelStyle_init_def
        BalloonStyle_init_def Let_def)
  from Style_decode_encode_canonical_order [OF dec]
  obtain e where enc: "Style_etree_element ?S = Inr e"
    and tags: "map tag (children e) =
       [''{k}IconStyle'', ''{k}LineStyle'', ''{k}PolyStyle'', ''{k}LabelStyle'',
        ''{k}BalloonStyle'']"
    by (auto simp: etree_find_def)
  show ?thesis
    by (rule exI [of _ ?S], rule exI [of _ e]) (simp only: dec enc tags simp_thms)
qed

section \<open>Round trip of the style variants\<close>


















end
